theory Spec2Isabelle
  imports Main "HOL-Library.AList" "HOL-Library.Multiset"
begin

section \<open>Values\<close>

text \<open>
  The server is TypeScript whose types are erased at run time: a field read from a
  parsed frame is the declared value or \<open>undefined\<close>. A value that may be
  \<open>undefined\<close> is an option, \<open>None\<close> being \<open>undefined\<close>. A field that is present is
  assumed to have the type that \<open>shared/schema.ts\<close> declares for it.
\<close>

type_synonym 'a js = "'a option"

text \<open>A \<open>Date\<close> is a number of milliseconds; a connection stands for the socket \<open>ws\<close>
  and for the \<open>clientId\<close> generated with it (both are created once per connection).\<close>

type_synonym date = nat
type_synonym conn = nat

text \<open>The template literal \<open>`${x}`\<close> on a string that may be undefined.\<close>

definition template :: "string js \<Rightarrow> string" where
  "template x = (case x of None \<Rightarrow> ''undefined'' | Some v \<Rightarrow> v)"

section \<open>Entities of \<open>shared/schema.ts\<close>\<close>

record Room =
  r_id :: string
  r_videoUrl :: string
  r_hostId :: string
  r_createdAt :: date

record Participant =
  p_roomId :: "string js"
  p_username :: "string js"
  p_id :: nat
  p_joinedAt :: date

record Message =
  m_roomId :: "string js"
  m_username :: "string js"
  m_content :: "string js"
  m_type :: string
  m_id :: nat
  m_timestamp :: date

record PlaybackState =
  ps_roomId :: "string js"
  ps_isPlaying :: "bool js"
  ps_currentTime :: "int js"
  ps_lastUpdated :: date

section \<open>\<open>MemStorage\<close>\<close>

text \<open>
  The maps of \<open>MemStorage\<close> are only read and written by key, so they are partial
  functions. The keys are room ids as the callers pass them, which for the socket
  handlers may be \<open>undefined\<close>. The \<open>users\<close> map is not reachable from the routes and is
  left out. Every \<open>new Date()\<close> is the argument \<open>now\<close>.
\<close>

record MemStorage =
  rooms :: "string js \<rightharpoonup> Room"
  participants :: "string js \<rightharpoonup> Participant list"
  messages :: "string js \<rightharpoonup> Message list"
  playbackStates :: "string js \<rightharpoonup> PlaybackState"
  participantId :: nat
  messageId :: nat

definition new_MemStorage :: MemStorage where
  "new_MemStorage =
     \<lparr>rooms = Map.empty, participants = Map.empty, messages = Map.empty,
      playbackStates = Map.empty, participantId = 1, messageId = 1\<rparr>"

text \<open>\<open>createRoom\<close>: the id is \<open>nanoid(6)\<close>, an input of the model.\<close>

definition createRoom ::
  "MemStorage \<Rightarrow> date \<Rightarrow> string \<Rightarrow> string \<Rightarrow> string \<Rightarrow> MemStorage \<times> Room" where
  "createRoom st now new_id videoUrl hostId =
     (let newRoom = \<lparr>r_id = new_id, r_videoUrl = videoUrl, r_hostId = hostId, r_createdAt = now\<rparr>
      in (st\<lparr>rooms := (rooms st)(Some new_id \<mapsto> newRoom),
             participants := (participants st)(Some new_id \<mapsto> []),
             messages := (messages st)(Some new_id \<mapsto> []),
             playbackStates := (playbackStates st)(Some new_id \<mapsto>
               \<lparr>ps_roomId = Some new_id, ps_isPlaying = Some False,
                ps_currentTime = Some 0, ps_lastUpdated = now\<rparr>)\<rparr>,
          newRoom))"

definition getRoom :: "MemStorage \<Rightarrow> string js \<Rightarrow> Room option" where
  "getRoom st room_id = rooms st room_id"

definition getParticipants :: "MemStorage \<Rightarrow> string js \<Rightarrow> Participant list" where
  "getParticipants st roomId = (case participants st roomId of None \<Rightarrow> [] | Some ps \<Rightarrow> ps)"

definition addParticipant ::
  "MemStorage \<Rightarrow> date \<Rightarrow> string js \<Rightarrow> string js \<Rightarrow> MemStorage \<times> Participant" where
  "addParticipant st now roomId username =
     (let newParticipant =
            \<lparr>p_roomId = roomId, p_username = username, p_id = participantId st, p_joinedAt = now\<rparr>;
          roomParticipants = getParticipants st roomId
      in (st\<lparr>participantId := participantId st + 1,
             participants := (participants st)(roomId \<mapsto> roomParticipants @ [newParticipant])\<rparr>,
          newParticipant))"

definition removeParticipant :: "MemStorage \<Rightarrow> string js \<Rightarrow> string js \<Rightarrow> MemStorage" where
  "removeParticipant st roomId username =
     (let roomParticipants = getParticipants st roomId;
          updatedParticipants = filter (\<lambda>p. p_username p \<noteq> username) roomParticipants
      in st\<lparr>participants := (participants st)(roomId \<mapsto> updatedParticipants)\<rparr>)"

definition getMessages :: "MemStorage \<Rightarrow> string js \<Rightarrow> Message list" where
  "getMessages st roomId = (case messages st roomId of None \<Rightarrow> [] | Some ms \<Rightarrow> ms)"

definition addMessage ::
  "MemStorage \<Rightarrow> date \<Rightarrow> string js \<Rightarrow> string js \<Rightarrow> string js \<Rightarrow> string \<Rightarrow> MemStorage \<times> Message" where
  "addMessage st now roomId username content mtype =
     (let newMessage =
            \<lparr>m_roomId = roomId, m_username = username, m_content = content, m_type = mtype,
             m_id = messageId st, m_timestamp = now\<rparr>;
          roomMessages = getMessages st roomId
      in (st\<lparr>messageId := messageId st + 1,
             messages := (messages st)(roomId \<mapsto> roomMessages @ [newMessage])\<rparr>,
          newMessage))"

definition updatePlaybackState ::
  "MemStorage \<Rightarrow> date \<Rightarrow> string js \<Rightarrow> bool js \<Rightarrow> int js \<Rightarrow> MemStorage \<times> PlaybackState" where
  "updatePlaybackState st now roomId isPlaying currentTime =
     (let updatedState =
            \<lparr>ps_roomId = roomId, ps_isPlaying = isPlaying, ps_currentTime = currentTime,
             ps_lastUpdated = now\<rparr>
      in (st\<lparr>playbackStates := (playbackStates st)(roomId \<mapsto> updatedState)\<rparr>, updatedState))"

definition getPlaybackState :: "MemStorage \<Rightarrow> string js \<Rightarrow> PlaybackState option" where
  "getPlaybackState st roomId = playbackStates st roomId"

section \<open>\<open>DatabaseStorage\<close>: the two queries the claims name\<close>

text \<open>
  A table is the list of its rows in insertion order. \<open>ORDER BY timestamp\<close> is a sort by
  that column (the order among equal timestamps is the database's choice; the model keeps
  insertion order).
\<close>

record DbTables =
  db_messages :: "Message list"
  db_playbackStates :: "PlaybackState list"

definition db_getMessages :: "DbTables \<Rightarrow> string \<Rightarrow> Message list" where
  "db_getMessages db roomId =
     sort_key m_timestamp (filter (\<lambda>m. m_roomId m = Some roomId) (db_messages db))"

text \<open>
  The table \<open>playback_states\<close> of the schema: \<open>room_id\<close> is the primary key, a text
  without default; \<open>is_playing\<close> is a boolean with default \<open>false\<close>; \<open>current_time\<close> is
  an \<open>integer\<close>, 32 bits in the database, with default \<open>0\<close>; every column is \<open>notNull\<close>.
  A statement the database refuses raises in \<open>updatePlaybackState\<close> and changes no row:
  that is the error value. The database refuses a number outside the 32 bits, and a row
  without \<open>room_id\<close>. An \<open>undefined\<close> value is left out of the statement by the query
  builder: an inserted row then takes the column's default, an updated row keeps what
  it has.
\<close>

datatype db_error = Query_rejected

definition int32 :: "int \<Rightarrow> bool" where
  "int32 n = (- 2147483648 \<le> n \<and> n \<le> 2147483647)"

definition db_updatePlaybackState ::
  "DbTables \<Rightarrow> date \<Rightarrow> string js \<Rightarrow> bool js \<Rightarrow> int js \<Rightarrow> db_error + DbTables \<times> PlaybackState"
  where
  "db_updatePlaybackState db now roomId isPlaying currentTime =
     (case roomId of
        None \<Rightarrow> Inl Query_rejected
      | Some r \<Rightarrow>
          if (case currentTime of None \<Rightarrow> False | Some n \<Rightarrow> \<not> int32 n) then Inl Query_rejected
          else
            (case filter (\<lambda>row. ps_roomId row = Some r) (db_playbackStates db) of
               existingState # _ \<Rightarrow>
                 (let upd = (\<lambda>row. if ps_roomId row = Some r
                                    then row\<lparr>ps_isPlaying :=
                                               (case isPlaying of None \<Rightarrow> ps_isPlaying row
                                                | Some b \<Rightarrow> Some b),
                                             ps_currentTime :=
                                               (case currentTime of None \<Rightarrow> ps_currentTime row
                                                | Some n \<Rightarrow> Some n),
                                             ps_lastUpdated := now\<rparr>
                                    else row)
                  in Inr (db\<lparr>db_playbackStates := map upd (db_playbackStates db)\<rparr>,
                          upd existingState))
             | [] \<Rightarrow>
                 (let newState =
                        \<lparr>ps_roomId = Some r,
                         ps_isPlaying = Some (case isPlaying of None \<Rightarrow> False | Some b \<Rightarrow> b),
                         ps_currentTime = Some (case currentTime of None \<Rightarrow> 0 | Some n \<Rightarrow> n),
                         ps_lastUpdated = now\<rparr>
                  in Inr (db\<lparr>db_playbackStates := db_playbackStates db @ [newState]\<rparr>,
                          newState))))"

definition db_getPlaybackState :: "DbTables \<Rightarrow> string \<Rightarrow> PlaybackState js" where
  "db_getPlaybackState db roomId =
     (case filter (\<lambda>r. ps_roomId r = Some roomId) (db_playbackStates db) of
        state # _ \<Rightarrow> Some state | [] \<Rightarrow> None)"

section \<open>The socket server of \<open>routes.ts\<close>\<close>

text \<open>The server is modelled over \<open>MemStorage\<close>, whose operations do not fail.\<close>

datatype ready_state = CONNECTING | OPEN | CLOSING | CLOSED

text \<open>An entry of the \<open>clients\<close> map.\<close>

record client =
  c_ws :: conn
  c_roomId :: "string js"
  c_username :: "string js"

text \<open>
  The state of the process: the store, the \<open>clients\<close> map (a JavaScript \<open>Map\<close>: an
  association list in insertion order, where \<open>set\<close> on a present key keeps its place),
  the \<open>readyState\<close> of every socket and the wall clock that \<open>new Date()\<close> reads.
\<close>

record server =
  storage :: MemStorage
  clients :: "(conn \<times> client) list"
  readyState :: "conn \<Rightarrow> ready_state"
  clock :: date

definition init_server :: server where
  "init_server =
     \<lparr>storage = new_MemStorage, clients = [], readyState = (\<lambda>_. CLOSED), clock = 0\<rparr>"

text \<open>Server-to-client events, as the objects given to \<open>JSON.stringify\<close>.\<close>

datatype ws_event =
    Error string
  | Video_state "PlaybackState js"
  | Chat_message Message
  | New_peer "string js" "string js"
  | Peer_left "string js"
  | Join_room_success Room "Participant list" "Message list"

text \<open>
  A call \<open>ws.send(...)\<close>: the socket and the event. A handler returns its calls in
  order. What the \<open>ws\<close> library does with a call on a socket that is not \<open>OPEN\<close> is
  outside the model; \<open>broadcastToRoom\<close> makes no such call.
\<close>

type_synonym sends = "(conn \<times> ws_event) list"

definition broadcastToRoom :: "server \<Rightarrow> string js \<Rightarrow> ws_event \<Rightarrow> conn option \<Rightarrow> sends" where
  "broadcastToRoom s roomId message excludeClient =
     map (\<lambda>(cid, client). (c_ws client, message))
       (filter (\<lambda>(cid, client). c_roomId client = roomId \<and> Some (c_ws client) \<noteq> excludeClient
                  \<and> readyState s (c_ws client) = OPEN)
          (clients s))"

text \<open>The payload of a client frame: the fields the handlers destructure.\<close>

record payload =
  pl_roomId :: "string js"
  pl_username :: "string js"
  pl_peerId :: "string js"
  pl_content :: "string js"
  pl_isPlaying :: "bool js"
  pl_currentTime :: "int js"

text \<open>
  What \<open>JSON.parse(data.toString())\<close> gives. \<open>Malformed\<close>: the parse throws, or yields
  \<open>null\<close> (reading \<open>message.type\<close> throws). \<open>Parsed t p\<close>: \<open>t\<close> is the \<open>type\<close> field when it
  is a string, \<open>p\<close> is the \<open>payload\<close> field, \<open>None\<close> when it is \<open>undefined\<close> or \<open>null\<close>
  (destructuring it throws).
\<close>

datatype data = Malformed | Parsed "string js" "payload option"

definition join_room :: "server \<Rightarrow> conn \<Rightarrow> payload \<Rightarrow> server \<times> sends" where
  "join_room s ws pl =
     (let roomId = pl_roomId pl; username = pl_username pl; peerId = pl_peerId pl;
          s1 = s\<lparr>clients := AList.update ws
                   \<lparr>c_ws = ws, c_roomId = roomId, c_username = username\<rparr> (clients s)\<rparr>
      in case getRoom (storage s1) roomId of
           None \<Rightarrow> (s1, [(ws, Error ''Room not found'')])
         | Some room \<Rightarrow>
             (let (st1, newParticipant) = addParticipant (storage s1) (clock s1) roomId username;
                  (st2, systemMessage) =
                     addMessage st1 (clock s1) roomId (Some ''System'')
                       (Some (template username @ '' joined the room'')) ''system'';
                  playbackState = getPlaybackState st2 roomId;
                  ps = getParticipants st2 roomId;
                  s2 = s1\<lparr>storage := st2\<rparr>
              in (s2,
                  [(ws, Video_state playbackState)]
                  @ broadcastToRoom s2 roomId (Chat_message systemMessage) None
                  @ broadcastToRoom s2 roomId (New_peer peerId username) (Some ws)
                  @ [(ws, Join_room_success room ps (getMessages st2 roomId))])))"

definition leave_room :: "server \<Rightarrow> conn \<Rightarrow> server \<times> sends" where
  "leave_room s clientId =
     (case map_of (clients s) clientId of
        None \<Rightarrow> (s, [])
      | Some client \<Rightarrow>
          (let roomId = c_roomId client; username = c_username client;
               st1 = removeParticipant (storage s) roomId username;
               (st2, systemMessage) =
                  addMessage st1 (clock s) roomId (Some ''System'')
                    (Some (template username @ '' left the room'')) ''system'';
               s2 = s\<lparr>storage := st2\<rparr>;
               out = broadcastToRoom s2 roomId (Chat_message systemMessage) None
                     @ broadcastToRoom s2 roomId (Peer_left username) None
           in (s2\<lparr>clients := AList.delete clientId (clients s2)\<rparr>, out)))"

definition chat_message :: "server \<Rightarrow> conn \<Rightarrow> payload \<Rightarrow> server \<times> sends" where
  "chat_message s ws pl =
     (let roomId = pl_roomId pl; username = pl_username pl; content = pl_content pl;
          (st1, newMessage) = addMessage (storage s) (clock s) roomId username content ''user'';
          s1 = s\<lparr>storage := st1\<rparr>
      in (s1, broadcastToRoom s1 roomId (Chat_message newMessage) None))"

definition video_state :: "server \<Rightarrow> conn \<Rightarrow> payload \<Rightarrow> server \<times> sends" where
  "video_state s ws pl =
     (let roomId = pl_roomId pl; isPlaying = pl_isPlaying pl; currentTime = pl_currentTime pl;
          (st1, updatedState) =
             updatePlaybackState (storage s) (clock s) roomId isPlaying currentTime;
          s1 = s\<lparr>storage := st1\<rparr>
      in (s1, broadcastToRoom s1 roomId (Video_state (Some updatedState)) (Some ws)))"

text \<open>
  The \<open>message\<close> handler: the \<open>switch\<close> inside \<open>try\<close>. Every exception is caught and
  logged, and each one is raised before the handler has changed anything.
\<close>

definition on_message :: "server \<Rightarrow> conn \<Rightarrow> data \<Rightarrow> server \<times> sends" where
  "on_message s ws d =
     (case d of
        Malformed \<Rightarrow> (s, [])
      | Parsed t p \<Rightarrow>
          if t = Some ''join_room'' then
            (case p of None \<Rightarrow> (s, []) | Some pl \<Rightarrow> join_room s ws pl)
          else if t = Some ''leave_room'' then leave_room s ws
          else if t = Some ''chat_message'' then
            (case p of None \<Rightarrow> (s, []) | Some pl \<Rightarrow> chat_message s ws pl)
          else if t = Some ''video_state'' then
            (case p of None \<Rightarrow> (s, []) | Some pl \<Rightarrow> video_state s ws pl)
          else (s, []))"

text \<open>The \<open>close\<close> handler: the same statements as the \<open>leave_room\<close> case.\<close>

definition on_close :: "server \<Rightarrow> conn \<Rightarrow> server \<times> sends" where
  "on_close s clientId =
     (case map_of (clients s) clientId of
        None \<Rightarrow> (s, [])
      | Some client \<Rightarrow>
          (let roomId = c_roomId client; username = c_username client;
               st1 = removeParticipant (storage s) roomId username;
               (st2, systemMessage) =
                  addMessage st1 (clock s) roomId (Some ''System'')
                    (Some (template username @ '' left the room'')) ''system'';
               s2 = s\<lparr>storage := st2\<rparr>;
               out = broadcastToRoom s2 roomId (Chat_message systemMessage) None
                     @ broadcastToRoom s2 roomId (Peer_left username) None
           in (s2\<lparr>clients := AList.delete clientId (clients s2)\<rparr>, out)))"

text \<open>
  The leave path as the process runs it. Both handlers are \<open>async\<close>: the code up to
  the call of \<open>storage.removeParticipant\<close> runs when the event is handled, the rest after
  each of the two \<open>await\<close>s, and other code runs in between. \<open>MemStorage\<close> changes the
  store when its method is called. A \<open>leave_task\<close> is a handler suspended at an \<open>await\<close>,
  with its local variables.
\<close>

datatype leave_task =
    Await_removeParticipant conn client
  | Await_addMessage conn client Message

definition leave_start :: "server \<Rightarrow> conn \<Rightarrow> server \<times> leave_task list" where
  "leave_start s clientId =
     (case map_of (clients s) clientId of
        None \<Rightarrow> (s, [])
      | Some client \<Rightarrow>
          (s\<lparr>storage := removeParticipant (storage s) (c_roomId client) (c_username client)\<rparr>,
           [Await_removeParticipant clientId client]))"

fun leave_resume :: "server \<Rightarrow> leave_task \<Rightarrow> server \<times> sends \<times> leave_task list" where
  "leave_resume s (Await_removeParticipant clientId client) =
     (let (st, systemMessage) =
            addMessage (storage s) (clock s) (c_roomId client) (Some ''System'')
              (Some (template (c_username client) @ '' left the room'')) ''system''
      in (s\<lparr>storage := st\<rparr>, [], [Await_addMessage clientId client systemMessage]))"
| "leave_resume s (Await_addMessage clientId client systemMessage) =
     (let out = broadcastToRoom s (c_roomId client) (Chat_message systemMessage) None
                @ broadcastToRoom s (c_roomId client) (Peer_left (c_username client)) None
      in (s\<lparr>clients := AList.delete clientId (clients s)\<rparr>, out, []))"

text \<open>The \<open>await\<close>s a suspended handler still has before it ends.\<close>

fun awaits_left :: "leave_task \<Rightarrow> nat" where
  "awaits_left (Await_removeParticipant clientId client) = 2"
| "awaits_left (Await_addMessage clientId client systemMessage) = 1"

text \<open>
  The queue of suspended handlers is served first in, first out; a handler that suspends
  again goes to the end of the queue.
\<close>

function resume_all :: "server \<Rightarrow> leave_task list \<Rightarrow> server \<times> sends" where
  "resume_all s [] = (s, [])"
| "resume_all s (t # queue) =
     (let r = leave_resume s t;
          rest = resume_all (fst r) (queue @ snd (snd r))
      in (fst rest, fst (snd r) @ snd rest))"
  by pat_completeness auto
termination
proof (relation "measure (\<lambda>(s, queue). sum_list (map awaits_left queue))")
  show "wf (measure (\<lambda>(s, queue). sum_list (map awaits_left queue)))"
    by simp
next
  fix s t queue r
  assume "r = leave_resume s t"
  then show "((fst r, queue @ snd (snd r)), s, t # queue)
               \<in> measure (\<lambda>(s, queue). sum_list (map awaits_left queue))"
    by (cases t) (simp_all add: split_def Let_def)
qed

text \<open>
  \<open>leave_room\<close> frames of the connections \<open>cs\<close> whose handlers all start before any of
  them resumes (frames read from the socket together): each handler runs to its first
  \<open>await\<close>, then the queue is served.
\<close>

fun leaves_started :: "server \<Rightarrow> conn list \<Rightarrow> server \<times> leave_task list" where
  "leaves_started s [] = (s, [])"
| "leaves_started s (c # cs) =
     (let (s1, ts) = leave_start s c; (s2, ts') = leaves_started s1 cs in (s2, ts @ ts'))"

definition overlapping_leaves :: "server \<Rightarrow> conn list \<Rightarrow> server \<times> sends" where
  "overlapping_leaves s cs = (let (s1, queue) = leaves_started s cs in resume_all s1 queue)"

section \<open>The HTTP routes\<close>

datatype http_body =
    Json_message string
  | Json_roomId string
  | Json_room Room "Participant list" "Message list" "PlaybackState js"

text \<open>\<open>POST /api/rooms\<close>; \<open>!x\<close> holds of \<open>undefined\<close> and of the empty string.\<close>

definition post_api_rooms ::
  "server \<Rightarrow> string \<Rightarrow> string js \<Rightarrow> string js \<Rightarrow> server \<times> nat \<times> http_body" where
  "post_api_rooms s new_id username videoUrl =
     (case (username, videoUrl) of
        (Some u, Some v) \<Rightarrow>
          if u = [] \<or> v = []
          then (s, 400, Json_message ''Username and video URL are required'')
          else
            (let (st1, room) = createRoom (storage s) (clock s) new_id v u;
                 (st2, p) = addParticipant st1 (clock s) (Some (r_id room)) (Some u);
                 (st3, m) = addMessage st2 (clock s) (Some (r_id room)) (Some ''System'')
                              (Some (u @ '' created the room'')) ''system''
             in (s\<lparr>storage := st3\<rparr>, 201, Json_roomId (r_id room)))
      | _ \<Rightarrow> (s, 400, Json_message ''Username and video URL are required''))"

definition get_api_room :: "server \<Rightarrow> string \<Rightarrow> nat \<times> http_body" where
  "get_api_room s roomId =
     (case getRoom (storage s) (Some roomId) of
        None \<Rightarrow> (404, Json_message ''Room not found'')
      | Some room \<Rightarrow>
          (200, Json_room room (getParticipants (storage s) (Some roomId))
                  (getMessages (storage s) (Some roomId))
                  (getPlaybackState (storage s) (Some roomId))))"

section \<open>The process as a transition system\<close>

text \<open>
  One event of the process, with its handler run to its end: \<open>step\<close> is the schedule in
  which no other handler runs between the \<open>await\<close>s of this one. The leave path is also
  given in its stretches above, where handlers overlap. The wall clock only moves
  forward (\<open>Tick\<close>) and stands still while a handler runs. A socket is \<open>OPEN\<close> from its
  \<open>connection\<close> event, may turn \<open>CLOSING\<close> at any time, and is \<open>CLOSED\<close> when its \<open>close\<close>
  handler runs.
\<close>

datatype event =
    Tick nat
  | Http_post_rooms string "string js" "string js"
  | Http_get_room string
  | Ws_connection conn
  | Ws_message conn data
  | Ws_closing conn
  | Ws_close conn

datatype effect = Ws_send conn ws_event | Http_response nat http_body

definition step :: "server \<Rightarrow> event \<Rightarrow> server \<times> effect list" where
  "step s e =
     (case e of
        Tick n \<Rightarrow> (s\<lparr>clock := clock s + n\<rparr>, [])
      | Http_post_rooms new_id username videoUrl \<Rightarrow>
          (let (s1, status, body) = post_api_rooms s new_id username videoUrl
           in (s1, [Http_response status body]))
      | Http_get_room roomId \<Rightarrow>
          (let (status, body) = get_api_room s roomId in (s, [Http_response status body]))
      | Ws_connection ws \<Rightarrow> (s\<lparr>readyState := (readyState s)(ws := OPEN)\<rparr>, [])
      | Ws_message ws d \<Rightarrow>
          (let (s1, out) = on_message s ws d in (s1, map (\<lambda>(c, m). Ws_send c m) out))
      | Ws_closing ws \<Rightarrow> (s\<lparr>readyState := (readyState s)(ws := CLOSING)\<rparr>, [])
      | Ws_close ws \<Rightarrow>
          (let (s1, out) = on_close (s\<lparr>readyState := (readyState s)(ws := CLOSED)\<rparr>) ws
           in (s1, map (\<lambda>(c, m). Ws_send c m) out)))"

fun run :: "server \<Rightarrow> event list \<Rightarrow> server" where
  "run s [] = s"
| "run s (e # es) = run (fst (step s e)) es"

section \<open>Notions the properties are stated with\<close>

text \<open>
  The connected members of a room: the sockets of the \<open>clients\<close> entries of that room
  whose socket is \<open>OPEN\<close>, in the order of the map. This is the set \<open>broadcastToRoom\<close>
  writes to when nothing is excluded.
\<close>

definition connected_members :: "server \<Rightarrow> string js \<Rightarrow> conn list" where
  "connected_members s roomId =
     map (\<lambda>(cid, client). c_ws client)
       (filter (\<lambda>(cid, client). c_roomId client = roomId \<and> readyState s (c_ws client) = OPEN)
          (clients s))"

text \<open>A connection is active in a room when \<open>clients\<close> holds its entry for that room.\<close>

definition active :: "server \<Rightarrow> conn \<Rightarrow> string js \<Rightarrow> bool" where
  "active s ws roomId =
     (case map_of (clients s) ws of
        None \<Rightarrow> False
      | Some client \<Rightarrow> c_ws client = ws \<and> c_roomId client = roomId)"

text \<open>
  Joins and leaves as the store sees them. A join is a call of \<open>addParticipant\<close>: a
  \<open>join_room\<close> for a room that exists makes one, and so does the creation of a room, for
  its host. A leave or a disconnect is a call of \<open>removeParticipant\<close> with the room and
  the username of the connection's entry in \<open>clients\<close>.
\<close>

datatype member_op = Join date "string js" "string js" | Leave "string js" "string js"

fun apply_member_op :: "MemStorage \<Rightarrow> member_op \<Rightarrow> MemStorage" where
  "apply_member_op st (Join now roomId username) = fst (addParticipant st now roomId username)"
| "apply_member_op st (Leave roomId username) = removeParticipant st roomId username"

definition usernames :: "MemStorage \<Rightarrow> string js \<Rightarrow> string js set" where
  "usernames st R = p_username ` set (getParticipants st R)"

text \<open>
  The specification's set, in its words: the usernames that joined room \<open>R\<close> and have not
  subsequently left.
\<close>

definition joined_not_left :: "member_op list \<Rightarrow> string js \<Rightarrow> string js set" where
  "joined_not_left ops R =
     {u. \<exists>before now after. ops = before @ Join now R u # after \<and> Leave R u \<notin> set after}"







text \<open>
  The message logs are in order: in every room the timestamps ascend, and none is later
  than the clock.
\<close>

definition log_sorted :: "server \<Rightarrow> bool" where
  "log_sorted s =
     (\<forall>r. sorted (map m_timestamp (getMessages (storage s) r))
        \<and> (\<forall>m \<in> set (getMessages (storage s) r). m_timestamp m \<le> clock s))"

text \<open>\<open>nanoid\<close> returns an id that is not in use: no log is stored under it yet.\<close>

definition fresh_id :: "server \<Rightarrow> event \<Rightarrow> bool" where
  "fresh_id s e =
     (case e of
        Http_post_rooms new_id username videoUrl \<Rightarrow> messages (storage s) (Some new_id) = None
      | _ \<Rightarrow> True)"

fun fresh_run :: "server \<Rightarrow> event list \<Rightarrow> bool" where
  "fresh_run s [] = True"
| "fresh_run s (e # es) = (fresh_id s e \<and> fresh_run (fst (step s e)) es)"

text \<open>One step of the logs: the clock does not go back, and each log is kept or gets one
  message stamped with the clock.\<close>

definition log_step :: "server \<Rightarrow> server \<Rightarrow> bool" where
  "log_step s s' =
     (clock s \<le> clock s'
      \<and> (\<forall>r. getMessages (storage s') r = getMessages (storage s) r
            \<or> (\<exists>m. getMessages (storage s') r = getMessages (storage s) r @ [m]
                   \<and> m_timestamp m = clock s')))"

text \<open>An event that changed neither the store nor the \<open>clients\<close> map and sent nothing.\<close>

definition noop_on :: "server \<Rightarrow> server \<times> effect list \<Rightarrow> bool" where
  "noop_on s r = (snd r = [] \<and> storage (fst r) = storage s \<and> clients (fst r) = clients s)"

section \<open>A sample session\<close>

text \<open>
  The scenario of the specification: room \<open>abc123\<close> with video \<open>v1\<close> is created by alice;
  alice joins on connection 11; connection 12 is open and has not joined yet.
\<close>

definition empty_payload :: payload where
  "empty_payload =
     \<lparr>pl_roomId = None, pl_username = None, pl_peerId = None, pl_content = None,
      pl_isPlaying = None, pl_currentTime = None\<rparr>"

definition alice_join :: payload where
  "alice_join =
     empty_payload\<lparr>pl_roomId := Some ''abc123'', pl_username := Some ''alice'',
                   pl_peerId := Some ''peer-a''\<rparr>"

definition bob_join :: payload where
  "bob_join =
     empty_payload\<lparr>pl_roomId := Some ''abc123'', pl_username := Some ''bob'',
                   pl_peerId := Some ''peer-b''\<rparr>"

definition nosuch_join :: payload where
  "nosuch_join =
     empty_payload\<lparr>pl_roomId := Some ''nosuch'', pl_username := Some ''bob'',
                   pl_peerId := Some ''peer-b''\<rparr>"

definition hello_chat :: payload where
  "hello_chat =
     empty_payload\<lparr>pl_roomId := Some ''abc123'', pl_username := Some ''alice'',
                   pl_content := Some ''hello''\<rparr>"

definition play_5000 :: payload where
  "play_5000 =
     empty_payload\<lparr>pl_roomId := Some ''abc123'', pl_isPlaying := Some True,
                   pl_currentTime := Some 5000\<rparr>"

definition pause_7000 :: payload where
  "pause_7000 =
     empty_payload\<lparr>pl_roomId := Some ''abc123'', pl_isPlaying := Some False,
                   pl_currentTime := Some 7000\<rparr>"

definition sample_Room :: Room where
  "sample_Room = \<lparr>r_id = ''abc123'', r_videoUrl = ''v1'', r_hostId = ''alice'', r_createdAt = 0\<rparr>"

definition sample_session :: server where
  "sample_session =
     run init_server
       [Ws_connection 11, Ws_connection 12,
        Http_post_rooms ''abc123'' (Some ''alice'') (Some ''v1''),
        Tick 5,
        Ws_message 11 (Parsed (Some ''join_room'') (Some alice_join))]"

text \<open>The session after bob has joined on connection 12.\<close>

definition sample_two :: server where
  "sample_two =
     fst (step sample_session (Ws_message 12 (Parsed (Some ''join_room'') (Some bob_join))))"


text \<open>Tables of the database: none, and the rows of two messages of the room.\<close>

definition empty_db :: DbTables where
  "empty_db = \<lparr>db_messages = [], db_playbackStates = []\<rparr>"

definition sample_db :: DbTables where
  "sample_db =
     \<lparr>db_messages =
        [\<lparr>m_roomId = Some ''abc123'', m_username = Some ''System'',
          m_content = Some ''alice created the room'', m_type = ''system'', m_id = 1,
          m_timestamp = 0\<rparr>,
         \<lparr>m_roomId = Some ''other'', m_username = Some ''carol'',
          m_content = Some ''hi'', m_type = ''user'', m_id = 2, m_timestamp = 3\<rparr>,
         \<lparr>m_roomId = Some ''abc123'', m_username = Some ''alice'',
          m_content = Some ''hello'', m_type = ''user'', m_id = 3, m_timestamp = 5\<rparr>],
      db_playbackStates = []\<rparr>"

section \<open>Facts about the store\<close>

lemmas store_defs =
  createRoom_def getRoom_def getParticipants_def addParticipant_def removeParticipant_def
  getMessages_def addMessage_def updatePlaybackState_def getPlaybackState_def new_MemStorage_def

lemmas handler_defs =
  on_message_def join_room_def leave_room_def chat_message_def video_state_def on_close_def
  broadcastToRoom_def post_api_rooms_def get_api_room_def step_def init_server_def template_def

lemmas sample_defs =
  sample_session_def alice_join_def bob_join_def nosuch_join_def hello_chat_def play_5000_def
  pause_7000_def empty_payload_def sample_Room_def

lemma getMessages_addMessage:
  "getMessages (fst (addMessage st now R' u c t)) R =
     (if R' = R
      then getMessages st R @
             [\<lparr>m_roomId = R, m_username = u, m_content = c, m_type = t, m_id = messageId st,
               m_timestamp = now\<rparr>]
      else getMessages st R)"
  by (simp add: addMessage_def getMessages_def Let_def)

lemma getMessages_addParticipant [simp]:
  "getMessages (fst (addParticipant st now R' u)) R = getMessages st R"
  by (simp add: addParticipant_def getMessages_def Let_def)

lemma getMessages_removeParticipant [simp]:
  "getMessages (removeParticipant st R' u) R = getMessages st R"
  by (simp add: removeParticipant_def getMessages_def Let_def)

lemma messageId_addParticipant [simp]:
  "messageId (fst (addParticipant st now R u)) = messageId st"
  by (simp add: addParticipant_def Let_def)

lemma messageId_removeParticipant [simp]:
  "messageId (removeParticipant st R u) = messageId st"
  by (simp add: removeParticipant_def Let_def)

lemma getMessages_updatePlaybackState [simp]:
  "getMessages (fst (updatePlaybackState st now R' ip ct)) R = getMessages st R"
  by (simp add: updatePlaybackState_def getMessages_def Let_def)






lemma messageId_addMessage [simp]:
  "messageId (fst (addMessage st now R u c t)) = Suc (messageId st)"
  by (simp add: addMessage_def Let_def)

lemma snd_addMessage:
  "snd (addMessage st now R u c t) =
     \<lparr>m_roomId = R, m_username = u, m_content = c, m_type = t, m_id = messageId st,
      m_timestamp = now\<rparr>"
  by (simp add: addMessage_def Let_def)

lemma usernames_addMessage [simp]:
  "usernames (fst (addMessage st now R' u c t)) R = usernames st R"
  by (simp add: usernames_def addMessage_def getParticipants_def Let_def)

lemma usernames_updatePlaybackState [simp]:
  "usernames (fst (updatePlaybackState st now R' ip ct)) R = usernames st R"
  by (simp add: usernames_def updatePlaybackState_def getParticipants_def Let_def)


lemma r_id_createRoom [simp]: "r_id (snd (createRoom st now new_id v u)) = new_id"
  by (simp add: createRoom_def Let_def)

section \<open>Facts about the broadcast and the handlers\<close>

lemma broadcast_all:
  "broadcastToRoom s r m None = map (\<lambda>c. (c, m)) (connected_members s r)"
  by (simp add: broadcastToRoom_def connected_members_def split_def comp_def)

lemma broadcast_except:
  "broadcastToRoom s r m (Some x) =
     map (\<lambda>c. (c, m)) (filter (\<lambda>c. c \<noteq> x) (connected_members s r))"
  by (simp add: broadcastToRoom_def connected_members_def split_def comp_def filter_map conj_commute conj_left_commute)

lemma connected_members_storage [simp]:
  "connected_members (s\<lparr>storage := st\<rparr>) r = connected_members s r"
  by (simp add: connected_members_def)

lemma connected_members_clock [simp]:
  "connected_members (s\<lparr>clock := t\<rparr>) r = connected_members s r"
  by (simp add: connected_members_def)

lemma active_connected:
  "active s c r \<Longrightarrow> readyState s c = OPEN \<Longrightarrow> c \<in> set (connected_members s r)"
  by (auto simp: active_def connected_members_def image_iff split: option.splits
      dest!: map_of_SomeD)

lemma leave_room_eq_on_close: "leave_room s c = on_close s c"
  by (simp add: leave_room_def on_close_def)

lemma on_close_unregistered: "map_of (clients s) c = None \<Longrightarrow> on_close s c = (s, [])"
  by (simp add: on_close_def)

lemma on_close_unregisters: "map_of (clients (fst (on_close s c))) c = None"
  by (cases "map_of (clients s) c")
     (simp_all add: on_close_def Let_def split_def delete_conv')

lemma step_Ws_message:
  "step s (Ws_message c d) =
     (fst (on_message s c d), map (\<lambda>(c, m). Ws_send c m) (snd (on_message s c d)))"
  by (simp add: step_def split_def Let_def)

lemma step_Ws_close:
  "step s (Ws_close c) =
     (fst (on_close (s\<lparr>readyState := (readyState s)(c := CLOSED)\<rparr>) c),
      map (\<lambda>(c, m). Ws_send c m)
        (snd (on_close (s\<lparr>readyState := (readyState s)(c := CLOSED)\<rparr>) c)))"
  by (simp add: step_def split_def Let_def)

section \<open>The sample session, evaluated\<close>

lemma sample_clients:
  "clients sample_session =
     [(11, \<lparr>c_ws = 11, c_roomId = Some ''abc123'', c_username = Some ''alice''\<rparr>)]"
  by (simp add: store_defs handler_defs sample_defs Let_def)

lemma sample_readyState:
  "readyState sample_session 11 = OPEN" "readyState sample_session 12 = OPEN"
  by (simp_all add: store_defs handler_defs sample_defs Let_def)

lemma sample_clock: "clock sample_session = 5"
  by (simp add: store_defs handler_defs sample_defs Let_def)

lemma sample_getRoom: "getRoom (storage sample_session) (Some ''abc123'') = Some sample_Room"
  by (simp add: store_defs handler_defs sample_defs Let_def)

lemma sample_getMessages:
  "getMessages (storage sample_session) (Some ''abc123'') =
     [\<lparr>m_roomId = Some ''abc123'', m_username = Some ''System'',
       m_content = Some ''alice created the room'', m_type = ''system'', m_id = 1,
       m_timestamp = 0\<rparr>,
      \<lparr>m_roomId = Some ''abc123'', m_username = Some ''System'',
       m_content = Some ''alice joined the room'', m_type = ''system'', m_id = 2,
       m_timestamp = 5\<rparr>]"
  by (simp add: store_defs handler_defs sample_defs Let_def)

lemma sample_messageId: "messageId (storage sample_session) = 3"
  by (simp add: store_defs handler_defs sample_defs Let_def)

lemma sample_getPlaybackState:
  "getPlaybackState (storage sample_session) (Some ''abc123'') =
     Some \<lparr>ps_roomId = Some ''abc123'', ps_isPlaying = Some False, ps_currentTime = Some 0,
           ps_lastUpdated = 0\<rparr>"
  by (simp add: store_defs handler_defs sample_defs Let_def)

lemma sample_connected_members:
  "connected_members sample_session (Some ''abc123'') = [11]"
  by (simp add: connected_members_def sample_clients sample_readyState)

lemma sample_active: "active sample_session 11 (Some ''abc123'')"
  by (simp add: active_def sample_clients)

lemma sample_two_clients:
  "clients sample_two =
     [(11, \<lparr>c_ws = 11, c_roomId = Some ''abc123'', c_username = Some ''alice''\<rparr>),
      (12, \<lparr>c_ws = 12, c_roomId = Some ''abc123'', c_username = Some ''bob''\<rparr>)]"
  using sample_getRoom
  by (simp add: sample_two_def step_Ws_message on_message_def join_room_def bob_join_def
      empty_payload_def split_def Let_def sample_clients)

lemma sample_two_readyState:
  "readyState sample_two 11 = OPEN" "readyState sample_two 12 = OPEN"
  using sample_getRoom
  by (simp_all add: sample_two_def step_Ws_message on_message_def join_room_def bob_join_def
      empty_payload_def split_def Let_def sample_readyState)

lemma sample_two_clock: "clock sample_two = 5"
  using sample_getRoom
  by (simp add: sample_two_def step_Ws_message on_message_def join_room_def bob_join_def
      empty_payload_def split_def Let_def sample_clock)

lemma sample_two_messageId: "messageId (storage sample_two) = 4"
  using sample_getRoom
  by (simp add: sample_two_def step_Ws_message on_message_def join_room_def bob_join_def
      empty_payload_def split_def Let_def sample_messageId)

lemma sample_two_contents:
  "map m_content (getMessages (storage sample_two) (Some ''abc123'')) =
     [Some ''alice created the room'', Some ''alice joined the room'',
      Some ''bob joined the room'']"
  using sample_getRoom
  by (simp add: sample_two_def step_Ws_message on_message_def join_room_def bob_join_def
      empty_payload_def split_def Let_def sample_getMessages getMessages_addMessage template_def)

section \<open>Joining a room that does not exist\<close>

text \<open>
  C1. A \<open>join_room\<close> whose room id does not resolve must send one \<open>error\<close> event to the
  caller and change neither the registry nor the store. The handler stores the
  connection in \<open>clients\<close> before it looks the room up, and returns without removing it.
  Evaluated on a fresh server, for connection 7 asking for the room \<open>nosuch\<close> as bob: one
  \<open>error\<close> event goes to connection 7 and the store is untouched, but \<open>clients\<close> now holds
  an entry for connection 7.
\<close>

theorem join_unknown_room_registers_connection:
  "on_message init_server 7 (Parsed (Some ''join_room'') (Some nosuch_join)) =
     (init_server\<lparr>clients :=
        [(7, \<lparr>c_ws = 7, c_roomId = Some ''nosuch'', c_username = Some ''bob''\<rparr>)]\<rparr>,
      [(7, Error ''Room not found'')])"
  by (simp add: on_message_def join_room_def init_server_def new_MemStorage_def getRoom_def
      nosuch_join_def empty_payload_def)

text \<open>
  The same for every state: the failed join sends the one \<open>error\<close> event, leaves the store
  as it was and leaves the connection registered. When that connection later closes, the
  \<open>close\<close> handler finds the entry and appends a "left the room" message to the log of
  the room that does not exist.
\<close>

lemma join_unknown_room:
  "getRoom (storage s) (pl_roomId pl) = None \<Longrightarrow>
   on_message s c (Parsed (Some ''join_room'') (Some pl)) =
     (s\<lparr>clients := AList.update c
          \<lparr>c_ws = c, c_roomId = pl_roomId pl, c_username = pl_username pl\<rparr> (clients s)\<rparr>,
      [(c, Error ''Room not found'')])"
  by (simp add: on_message_def join_room_def getRoom_def)

lemma close_after_failed_join:
  "getMessages
     (storage (fst (on_close
        (fst (on_message init_server 7 (Parsed (Some ''join_room'') (Some nosuch_join)))) 7)))
     (Some ''nosuch'') =
   [\<lparr>m_roomId = Some ''nosuch'', m_username = Some ''System'',
     m_content = Some ''bob left the room'', m_type = ''system'', m_id = 1, m_timestamp = 0\<rparr>]"
  by (simp add: store_defs handler_defs nosuch_join_def empty_payload_def Let_def)

section \<open>Leaving twice\<close>

lemma on_message_leave_room:
  "on_message s c (Parsed (Some ''leave_room'') p) = on_close s c"
  by (simp add: on_message_def leave_room_eq_on_close)

lemma step_leave_unregisters:
  "map_of (clients (fst (step s (Ws_message c (Parsed (Some ''leave_room'') p))))) c = None"
  by (simp add: step_Ws_message on_message_leave_room on_close_unregisters)

lemma step_close_unregisters: "map_of (clients (fst (step s (Ws_close c)))) c = None"
  by (simp add: step_Ws_close on_close_unregisters)

lemma step_leave_unregistered:
  "map_of (clients s) c = None \<Longrightarrow>
   noop_on s (step s (Ws_message c (Parsed (Some ''leave_room'') p)))"
  by (simp add: step_Ws_message on_message_leave_room on_close_unregistered noop_on_def)

lemma step_close_unregistered:
  "map_of (clients s) c = None \<Longrightarrow> noop_on s (step s (Ws_close c))"
  by (simp add: step_Ws_close on_close_unregistered noop_on_def)

text \<open>The first leave of a registered connection does append its message.\<close>

lemma first_leave_appends:
  "map_of (clients s) c = Some cl \<Longrightarrow>
   getMessages (storage (fst (on_close s c))) (c_roomId cl) =
     getMessages (storage s) (c_roomId cl) @
       [\<lparr>m_roomId = c_roomId cl, m_username = Some ''System'',
         m_content = Some (template (c_username cl) @ '' left the room''), m_type = ''system'',
         m_id = messageId (storage s), m_timestamp = clock s\<rparr>]"
  by (simp add: on_close_def split_def Let_def getMessages_addMessage)

text \<open>
  When the second leave is handled after the first has ended, by a \<open>leave_room\<close> frame
  or by the transport closing, in any of the four orders: it appends no message, leaves
  the store and the registry as they are and sends nothing, because the first ended with
  the connection's entry deleted from \<open>clients\<close>.
\<close>

lemma second_leave_is_noop:
  "(let leave = (\<lambda>s. step s (Ws_message c (Parsed (Some ''leave_room'') p)));
        close = (\<lambda>s. step s (Ws_close c))
    in map_of (clients (fst (leave s))) c = None
     \<and> map_of (clients (fst (close s))) c = None
     \<and> noop_on (fst (leave s)) (leave (fst (leave s)))
     \<and> noop_on (fst (leave s)) (close (fst (leave s)))
     \<and> noop_on (fst (close s)) (leave (fst (close s)))
     \<and> noop_on (fst (close s)) (close (fst (close s))))"
  unfolding Let_def
  by (intro conjI step_leave_unregisters step_close_unregisters
      step_leave_unregistered step_close_unregistered)

text \<open>One leave whose stretches run with nothing in between is the handler of \<open>step\<close>.\<close>

lemma leave_alone_is_on_close: "overlapping_leaves s [c] = on_close s c"
  by (cases "map_of (clients s) c")
     (simp_all add: overlapping_leaves_def leave_start_def on_close_def split_def Let_def)

text \<open>
  C4. Processing a leave twice for the same connection must make the second one a
  no-op: no second system message, no change of the store, nothing sent. Each leave
  path looks the connection's entry up in \<open>clients\<close> before its two \<open>await\<close>s and deletes
  it after them, so a second leave that is handled while the first is suspended still
  finds the entry. Evaluated in the room with alice on connection 11 and bob on
  connection 12, for two leaves of connection 11 handled before either resumes: the
  log gets "alice left the room" twice, and the second message and a second \<open>peer_left\<close>
  are sent to bob.
\<close>

theorem overlapping_leaves_append_twice:
  "map m_content
     (getMessages (storage (fst (overlapping_leaves sample_two [11, 11]))) (Some ''abc123'')) =
     [Some ''alice created the room'', Some ''alice joined the room'',
      Some ''bob joined the room'', Some ''alice left the room'', Some ''alice left the room'']
   \<and> snd (overlapping_leaves sample_two [11, 11]) =
     [(11, Chat_message \<lparr>m_roomId = Some ''abc123'', m_username = Some ''System'',
             m_content = Some ''alice left the room'', m_type = ''system'', m_id = 4,
             m_timestamp = 5\<rparr>),
      (12, Chat_message \<lparr>m_roomId = Some ''abc123'', m_username = Some ''System'',
             m_content = Some ''alice left the room'', m_type = ''system'', m_id = 4,
             m_timestamp = 5\<rparr>),
      (11, Peer_left (Some ''alice'')),
      (12, Peer_left (Some ''alice'')),
      (12, Chat_message \<lparr>m_roomId = Some ''abc123'', m_username = Some ''System'',
             m_content = Some ''alice left the room'', m_type = ''system'', m_id = 5,
             m_timestamp = 5\<rparr>),
      (12, Peer_left (Some ''alice''))]"
  by (simp add: overlapping_leaves_def leave_start_def split_def Let_def sample_two_clients
      sample_two_readyState sample_two_clock sample_two_messageId sample_two_contents
      getMessages_addMessage snd_addMessage broadcastToRoom_def template_def)

section \<open>Playback state\<close>

text \<open>
  C2. Two \<open>video_state\<close> updates U1 then U2 for room R, from any two connections, with
  any time passing between them: afterwards the playback state of R is U2's \<open>isPlaying\<close>
  and \<open>currentTime\<close>, stamped with the time of U2; and each update is sent, as the state
  it stored, to every connected member of R but its sender.
\<close>

theorem video_state_last_writer_wins:
  assumes "pl_roomId u1 = R" and "pl_roomId u2 = R"
  shows "(let (s1, out1) = on_message s c1 (Parsed (Some ''video_state'') (Some u1));
              s1' = fst (step s1 (Tick n));
              (s2, out2) = on_message s1' c2 (Parsed (Some ''video_state'') (Some u2));
              new1 = \<lparr>ps_roomId = R, ps_isPlaying = pl_isPlaying u1,
                      ps_currentTime = pl_currentTime u1, ps_lastUpdated = clock s\<rparr>;
              new2 = \<lparr>ps_roomId = R, ps_isPlaying = pl_isPlaying u2,
                      ps_currentTime = pl_currentTime u2, ps_lastUpdated = clock s + n\<rparr>
          in getPlaybackState (storage s1) R = Some new1
           \<and> getPlaybackState (storage s2) R = Some new2
           \<and> out1 = map (\<lambda>c. (c, Video_state (Some new1)))
                      (filter (\<lambda>c. c \<noteq> c1) (connected_members s R))
           \<and> out2 = map (\<lambda>c. (c, Video_state (Some new2)))
                      (filter (\<lambda>c. c \<noteq> c2) (connected_members s R)))"
  using assms
  by (simp add: on_message_def video_state_def updatePlaybackState_def getPlaybackState_def
      step_def Let_def broadcast_except)

theorem video_state_last_writer_wins_witness:
  "pl_roomId play_5000 = Some ''abc123'' \<and> pl_roomId pause_7000 = Some ''abc123''
   \<and> getPlaybackState
        (storage (fst (on_message
           (fst (step (fst (on_message sample_session 12
                              (Parsed (Some ''video_state'') (Some play_5000)))) (Tick 3)))
           11 (Parsed (Some ''video_state'') (Some pause_7000)))))
        (Some ''abc123'') =
       Some \<lparr>ps_roomId = Some ''abc123'', ps_isPlaying = Some False,
             ps_currentTime = Some 7000, ps_lastUpdated = 8\<rparr>
   \<and> snd (on_message sample_session 12 (Parsed (Some ''video_state'') (Some play_5000))) =
       [(11, Video_state (Some \<lparr>ps_roomId = Some ''abc123'', ps_isPlaying = Some True,
                                ps_currentTime = Some 5000, ps_lastUpdated = 5\<rparr>))]"
proof -
  have r: "pl_roomId play_5000 = Some ''abc123''" "pl_roomId pause_7000 = Some ''abc123''"
    by (simp_all add: play_5000_def pause_7000_def empty_payload_def)
  have v: "pl_isPlaying play_5000 = Some True" "pl_currentTime play_5000 = Some 5000"
    "pl_isPlaying pause_7000 = Some False" "pl_currentTime pause_7000 = Some 7000"
    by (simp_all add: play_5000_def pause_7000_def empty_payload_def)
  show ?thesis
    using video_state_last_writer_wins [OF r, of sample_session 12 3 11] r
    by (simp add: Let_def split_def v sample_clock sample_connected_members)
qed

section \<open>Chat\<close>

text \<open>
  C7. A \<open>chat_message\<close> event appends exactly one message of type \<open>user\<close> with the given
  content to the log of the room it names, changes no other log, and sends that message
  to every connected member of the room; a sender that is active in the room and whose
  socket is open is among the receivers.
\<close>

theorem chat_message_appends_and_broadcasts:
  "(let R = pl_roomId pl;
        (s1, out) = on_message s c (Parsed (Some ''chat_message'') (Some pl));
        m = \<lparr>m_roomId = R, m_username = pl_username pl, m_content = pl_content pl,
             m_type = ''user'', m_id = messageId (storage s), m_timestamp = clock s\<rparr>
    in getMessages (storage s1) R = getMessages (storage s) R @ [m]
     \<and> (\<forall>R'. R' \<noteq> R \<longrightarrow> getMessages (storage s1) R' = getMessages (storage s) R')
     \<and> out = map (\<lambda>r. (r, Chat_message m)) (connected_members s R)
     \<and> (active s c R \<and> readyState s c = OPEN \<longrightarrow> (c, Chat_message m) \<in> set out))"
  by (auto simp add: on_message_def chat_message_def addMessage_def getMessages_def
      Let_def broadcast_all dest: active_connected)

theorem chat_message_appends_and_broadcasts_witness:
  "active sample_session 11 (pl_roomId hello_chat) \<and> readyState sample_session 11 = OPEN
   \<and> None \<noteq> pl_roomId hello_chat
   \<and> getMessages (storage (fst (on_message sample_session 11
          (Parsed (Some ''chat_message'') (Some hello_chat))))) None
       = getMessages (storage sample_session) None
   \<and> (11, Chat_message \<lparr>m_roomId = Some ''abc123'', m_username = Some ''alice'',
          m_content = Some ''hello'', m_type = ''user'', m_id = 3, m_timestamp = 5\<rparr>)
       \<in> set (snd (on_message sample_session 11
                 (Parsed (Some ''chat_message'') (Some hello_chat))))"
proof -
  have p: "pl_roomId hello_chat = Some ''abc123''" "pl_username hello_chat = Some ''alice''"
    "pl_content hello_chat = Some ''hello''"
    by (simp_all add: hello_chat_def empty_payload_def)
  have a: "active sample_session 11 (pl_roomId hello_chat)"
    by (simp add: p sample_active)
  show ?thesis
    using chat_message_appends_and_broadcasts [of hello_chat sample_session 11] a
      sample_readyState(1)
    by (simp add: Let_def split_def p sample_messageId sample_clock sample_connected_members)
qed

section \<open>Events for rooms and senders the server does not know\<close>

lemma db_filter_map_upd:
  fixes upd :: "PlaybackState \<Rightarrow> PlaybackState"
  assumes "\<And>row. ps_roomId (upd row) = ps_roomId row"
  shows "filter (\<lambda>row. ps_roomId row = k) (map upd rows)
         = map upd (filter (\<lambda>row. ps_roomId row = k) rows)"
  using assms by (induction rows) auto

lemma db_upsert:
  assumes "int32 ct"
  shows "\<exists>db'. db_updatePlaybackState db now (Some r) (Some ip) (Some ct) =
               Inr (db', \<lparr>ps_roomId = Some r, ps_isPlaying = Some ip,
                          ps_currentTime = Some ct, ps_lastUpdated = now\<rparr>)
             \<and> db_getPlaybackState db' r =
                 Some \<lparr>ps_roomId = Some r, ps_isPlaying = Some ip,
                       ps_currentTime = Some ct, ps_lastUpdated = now\<rparr>
             \<and> (\<forall>r'. r' \<noteq> r \<longrightarrow> db_getPlaybackState db' r' = db_getPlaybackState db r')"
proof (cases "filter (\<lambda>row. ps_roomId row = Some r) (db_playbackStates db)")
  case Nil
  then show ?thesis
    using assms by (simp add: db_getPlaybackState_def db_updatePlaybackState_def Let_def)
next
  case (Cons e rest)
  then have "e \<in> set (filter (\<lambda>row. ps_roomId row = Some r) (db_playbackStates db))"
    by simp
  then have e: "ps_roomId e = Some r"
    by simp
  let ?upd = "\<lambda>row. if ps_roomId row = Some r
                     then row\<lparr>ps_isPlaying :=
                                (case Some ip of None \<Rightarrow> ps_isPlaying row | Some b \<Rightarrow> Some b),
                              ps_currentTime :=
                                (case Some ct of None \<Rightarrow> ps_currentTime row | Some n \<Rightarrow> Some n),
                              ps_lastUpdated := now\<rparr>
                     else row"
  have same: "filter (\<lambda>row. ps_roomId row = Some r) (map ?upd (db_playbackStates db))
        = map ?upd (filter (\<lambda>row. ps_roomId row = Some r) (db_playbackStates db))"
    by (rule db_filter_map_upd) simp
  have other: "filter (\<lambda>row. ps_roomId row = Some r') (map ?upd (db_playbackStates db))
        = filter (\<lambda>row. ps_roomId row = Some r') (db_playbackStates db)" if "r' \<noteq> r" for r'
  proof -
    have "filter (\<lambda>row. ps_roomId row = Some r') (map ?upd (db_playbackStates db))
        = map ?upd (filter (\<lambda>row. ps_roomId row = Some r') (db_playbackStates db))"
      by (rule db_filter_map_upd) simp
    also have "\<dots> = filter (\<lambda>row. ps_roomId row = Some r') (db_playbackStates db)"
      using that by (intro map_idI) auto
    finally show ?thesis .
  qed
  from Cons e assms same other show ?thesis
    by (simp add: db_getPlaybackState_def db_updatePlaybackState_def Let_def)
qed

lemma db_rejects:
  "db_updatePlaybackState db now None ip ct = Inl Query_rejected"
  "\<not> int32 n \<Longrightarrow> db_updatePlaybackState db now rid ip (Some n) = Inl Query_rejected"
  by (simp_all add: db_updatePlaybackState_def split: option.splits)

text \<open>
  C9, as the code has it. A \<open>chat_message\<close> or \<open>video_state\<close> event is applied to the
  store under the room id of its payload in every state, whoever sends it: nothing is
  required of the \<open>clients\<close> map or of the rooms, and neither is changed. The message is
  appended to the log kept under that id, and the playback state under that id becomes
  the payload's, whether a row was there or not. \<open>DatabaseStorage.updatePlaybackState\<close>
  is the same upsert for the values its columns take, a room id and a \<open>currentTime\<close> of
  32 bits: it updates the row or inserts it, and leaves the rows of other rooms. Without
  room id, or with a \<open>currentTime\<close>
  outside the 32 bits, the database rejects the statement and no row is stored.
\<close>

theorem events_applied_without_checks:
  assumes "int32 ct"
  shows "(let R = pl_roomId pl;
              (s1, out1) = on_message s c (Parsed (Some ''chat_message'') (Some pl));
              (s2, out2) = on_message s c (Parsed (Some ''video_state'') (Some pl));
              m = \<lparr>m_roomId = R, m_username = pl_username pl, m_content = pl_content pl,
                   m_type = ''user'', m_id = messageId (storage s), m_timestamp = clock s\<rparr>;
              new = \<lparr>ps_roomId = R, ps_isPlaying = pl_isPlaying pl,
                     ps_currentTime = pl_currentTime pl, ps_lastUpdated = clock s\<rparr>
          in getMessages (storage s1) R = getMessages (storage s) R @ [m]
           \<and> getPlaybackState (storage s2) R = Some new
           \<and> rooms (storage s1) = rooms (storage s) \<and> rooms (storage s2) = rooms (storage s)
           \<and> clients s1 = clients s \<and> clients s2 = clients s)
         \<and> (\<exists>db'. db_updatePlaybackState db now (Some dbR) (Some ip) (Some ct) =
                    Inr (db', \<lparr>ps_roomId = Some dbR, ps_isPlaying = Some ip,
                               ps_currentTime = Some ct, ps_lastUpdated = now\<rparr>)
                  \<and> db_getPlaybackState db' dbR =
                      Some \<lparr>ps_roomId = Some dbR, ps_isPlaying = Some ip,
                            ps_currentTime = Some ct, ps_lastUpdated = now\<rparr>
                  \<and> (\<forall>r'. r' \<noteq> dbR \<longrightarrow>
                         db_getPlaybackState db' r' = db_getPlaybackState db r'))
         \<and> db_updatePlaybackState db now None ip' ct' = Inl Query_rejected
         \<and> (\<not> int32 n \<longrightarrow> db_updatePlaybackState db now rid ip' (Some n) = Inl Query_rejected)"
proof -
  have "\<exists>db'. db_updatePlaybackState db now (Some dbR) (Some ip) (Some ct) =
               Inr (db', \<lparr>ps_roomId = Some dbR, ps_isPlaying = Some ip,
                          ps_currentTime = Some ct, ps_lastUpdated = now\<rparr>)
             \<and> db_getPlaybackState db' dbR =
                 Some \<lparr>ps_roomId = Some dbR, ps_isPlaying = Some ip,
                       ps_currentTime = Some ct, ps_lastUpdated = now\<rparr>
             \<and> (\<forall>r'. r' \<noteq> dbR \<longrightarrow>
                    db_getPlaybackState db' r' = db_getPlaybackState db r')"
    using assms by (rule db_upsert)
  then show ?thesis
    by (simp add: db_rejects on_message_def chat_message_def video_state_def addMessage_def
        updatePlaybackState_def getMessages_def getPlaybackState_def Let_def)
qed

theorem events_applied_without_checks_witness:
  "int32 5000
   \<and> getPlaybackState (storage init_server) (Some ''abc123'') = None
   \<and> getPlaybackState
        (storage (fst (on_message init_server 9 (Parsed (Some ''video_state'') (Some play_5000)))))
        (Some ''abc123'') =
       Some \<lparr>ps_roomId = Some ''abc123'', ps_isPlaying = Some True, ps_currentTime = Some 5000,
             ps_lastUpdated = 0\<rparr>
   \<and> db_getPlaybackState empty_db ''abc123'' = None
   \<and> db_updatePlaybackState empty_db 7 (Some ''abc123'') (Some True) (Some 5000) =
       Inr (empty_db\<lparr>db_playbackStates :=
                       [\<lparr>ps_roomId = Some ''abc123'', ps_isPlaying = Some True,
                         ps_currentTime = Some 5000, ps_lastUpdated = 7\<rparr>]\<rparr>,
            \<lparr>ps_roomId = Some ''abc123'', ps_isPlaying = Some True,
             ps_currentTime = Some 5000, ps_lastUpdated = 7\<rparr>)"
proof -
  have r: "int32 5000" by (simp add: int32_def)
  have p: "pl_roomId play_5000 = Some ''abc123''" "pl_isPlaying play_5000 = Some True"
    "pl_currentTime play_5000 = Some 5000"
    by (simp_all add: play_5000_def empty_payload_def)
  have d: "db_updatePlaybackState empty_db 7 (Some ''abc123'') (Some True) (Some 5000) =
       Inr (empty_db\<lparr>db_playbackStates :=
                       [\<lparr>ps_roomId = Some ''abc123'', ps_isPlaying = Some True,
                         ps_currentTime = Some 5000, ps_lastUpdated = 7\<rparr>]\<rparr>,
            \<lparr>ps_roomId = Some ''abc123'', ps_isPlaying = Some True,
             ps_currentTime = Some 5000, ps_lastUpdated = 7\<rparr>)"
    by (simp add: db_updatePlaybackState_def empty_db_def int32_def Let_def)
  have e: "db_getPlaybackState empty_db ''abc123'' = None"
    "getPlaybackState (storage init_server) (Some ''abc123'') = None"
    by (simp_all add: db_getPlaybackState_def empty_db_def getPlaybackState_def init_server_def
        new_MemStorage_def)
  show ?thesis
    using events_applied_without_checks [OF r, of play_5000 init_server 9] r d e
    by (simp add: Let_def split_def p init_server_def)
qed

text \<open>
  C9 as the specification states it fails on \<open>DatabaseStorage\<close>: with no row for the
  room, the update with \<open>currentTime\<close> 2147483648 is rejected and creates none.
\<close>

theorem database_rejects_large_currentTime:
  "db_getPlaybackState empty_db ''abc123'' = None
   \<and> db_updatePlaybackState empty_db 7 (Some ''abc123'') (Some True) (Some 2147483648) =
       Inl Query_rejected"
  by (simp add: db_getPlaybackState_def db_updatePlaybackState_def empty_db_def int32_def)

section \<open>Creating a room\<close>

text \<open>
  C10. \<open>POST /api/rooms\<close> with a username and a video URL itself stores a participant
  row for the host and a system message that the host created the room. When the host
  then sends \<open>join_room\<close> with the same username, the room's participants are two rows
  for the host.
\<close>

theorem host_has_two_rows_after_join:
  assumes "u \<noteq> []" and "v \<noteq> []"
    and "pl_roomId pl = Some new_id" and "pl_username pl = Some u"
  shows "(let (s1, status, body) = post_api_rooms s new_id (Some u) (Some v);
              R = Some new_id;
              (s2, out) = on_message s1 c (Parsed (Some ''join_room'') (Some pl))
          in status = 201 \<and> body = Json_roomId new_id
           \<and> getParticipants (storage s1) R =
               [\<lparr>p_roomId = R, p_username = Some u, p_id = participantId (storage s),
                 p_joinedAt = clock s\<rparr>]
           \<and> getMessages (storage s1) R =
               [\<lparr>m_roomId = R, m_username = Some ''System'',
                 m_content = Some (u @ '' created the room''), m_type = ''system'',
                 m_id = messageId (storage s), m_timestamp = clock s\<rparr>]
           \<and> map p_username (getParticipants (storage s2) R) = [Some u, Some u])"
  using assms
  by (simp add: post_api_rooms_def createRoom_def addParticipant_def addMessage_def
      getParticipants_def getMessages_def getRoom_def on_message_def join_room_def Let_def)

theorem host_has_two_rows_after_join_witness:
  "''alice'' \<noteq> [] \<and> ''v1'' \<noteq> [] \<and> pl_roomId alice_join = Some ''abc123''
   \<and> pl_username alice_join = Some ''alice''
   \<and> map p_username
        (getParticipants
           (storage (fst (on_message
              (fst (post_api_rooms init_server ''abc123'' (Some ''alice'') (Some ''v1'')))
              11 (Parsed (Some ''join_room'') (Some alice_join)))))
           (Some ''abc123'')) = [Some ''alice'', Some ''alice'']"
proof -
  have p: "pl_roomId alice_join = Some ''abc123''" "pl_username alice_join = Some ''alice''"
    by (simp_all add: alice_join_def empty_payload_def)
  show ?thesis
    using host_has_two_rows_after_join [OF _ _ p, of "''v1''" init_server 11] p
    by (simp add: Let_def split_def)
qed

section \<open>Joining a room\<close>

lemma update_mem: "(k, v) \<in> set (AList.update k v al)"
  by (induction al) auto

lemma joiner_is_member:
  assumes "readyState s c = OPEN"
  shows "c \<in> set (connected_members
            (s\<lparr>clients := AList.update c \<lparr>c_ws = c, c_roomId = R, c_username = u\<rparr> (clients s)\<rparr>) R)"
  unfolding connected_members_def
  using assms update_mem[of c "\<lparr>c_ws = c, c_roomId = R, c_username = u\<rparr>" "clients s"]
  by (force simp: image_iff)

text \<open>
  In a list of sends made of one send, a broadcast of \<open>x\<close> to \<open>ms\<close>, a broadcast of \<open>y\<close>
  to some of \<open>ms\<close> and one more send, every \<open>y\<close> comes after the same receiver's \<open>x\<close>.
\<close>

lemma second_broadcast_follows_first:
  fixes a d :: "'c \<times> 'e"
  assumes out: "out = [a] @ map (\<lambda>r. (r, x)) ms @ map (\<lambda>r. (r, y)) (filter P ms) @ [d]"
    and neq: "snd a \<noteq> y" "x \<noteq> y" "snd d \<noteq> y"
    and j: "j < length out" "out ! j = (r, y)"
  shows "\<exists>i<j. out ! i = (r, x)"
proof -
  let ?B = "map (\<lambda>r. (r, x)) ms" and ?C = "map (\<lambda>r. (r, y)) (filter P ms)"
  have j0: "j \<noteq> 0"
  proof
    assume "j = 0"
    then have "out ! j = a" using out by simp
    with j neq show False by (cases a) auto
  qed
  have jB: "\<not> (j - 1 < length ?B)"
  proof
    assume "j - 1 < length ?B"
    then have "out ! j = (ms ! (j - 1), x)" using j0 out by (simp add: nth_append nth_Cons')
    with j neq show False by simp
  qed
  have jC: "j - 1 - length ms < length ?C"
  proof (rule ccontr)
    assume "\<not> j - 1 - length ms < length ?C"
    then have "out ! j = d" using j0 jB out j
      by (auto simp add: nth_append nth_Cons' not_less less_Suc_eq_le le_antisym)
    with j neq show False by (cases d) auto
  qed
  then have "out ! j = ?C ! (j - 1 - length ms)"
    using j0 jB out by (simp add: nth_append nth_Cons')
  with j jC have "r \<in> set (filter P ms)"
    by (metis (no_types, lifting) fst_conv length_map nth_map nth_mem)
  then have "r \<in> set ms" by simp
  then obtain k where k: "k < length ms" "ms ! k = r" by (auto simp: in_set_conv_nth)
  have "Suc k < j" using k jB by simp
  moreover have "out ! Suc k = (r, x)" using k out by (simp add: nth_append)
  ultimately show ?thesis by blast
qed

text \<open>
  C3. A \<open>join_room\<close> for a room that exists makes its sends in this order: the current
  playback state to the joiner alone; the new system message that the user joined to
  every connected member of the room, the joiner among them; \<open>new_peer\<close> with the peer
  id and the username to every connected member but the joiner; \<open>join_room_success\<close>
  with the room, the participants and the messages to the joiner alone. Whoever gets
  the \<open>new_peer\<close> event was sent the join announcement earlier in that order.
\<close>

theorem join_room_side_effects_in_order:
  assumes "getRoom (storage s) (pl_roomId pl) = Some room"
  shows "(let R = pl_roomId pl; u = pl_username pl;
              (s1, out) = on_message s c (Parsed (Some ''join_room'') (Some pl));
              sys = \<lparr>m_roomId = R, m_username = Some ''System'',
                     m_content = Some (template u @ '' joined the room''), m_type = ''system'',
                     m_id = messageId (storage s), m_timestamp = clock s\<rparr>;
              members = connected_members s1 R
          in out = [(c, Video_state (getPlaybackState (storage s) R))]
                   @ map (\<lambda>r. (r, Chat_message sys)) members
                   @ map (\<lambda>r. (r, New_peer (pl_peerId pl) u)) (filter (\<lambda>r. r \<noteq> c) members)
                   @ [(c, Join_room_success room (getParticipants (storage s1) R)
                            (getMessages (storage s1) R))]
           \<and> map_of (clients s1) c = Some \<lparr>c_ws = c, c_roomId = R, c_username = u\<rparr>
           \<and> getMessages (storage s1) R = getMessages (storage s) R @ [sys]
           \<and> getParticipants (storage s1) R = getParticipants (storage s) R @
                [\<lparr>p_roomId = R, p_username = u, p_id = participantId (storage s),
                  p_joinedAt = clock s\<rparr>]
           \<and> (readyState s c = OPEN \<longrightarrow> c \<in> set members)
           \<and> (\<forall>r j. j < length out \<and> out ! j = (r, New_peer (pl_peerId pl) u)
                  \<longrightarrow> (\<exists>i<j. out ! i = (r, Chat_message sys))))"
proof -
  define R where "R = pl_roomId pl"
  define u where "u = pl_username pl"
  define sys where "sys = \<lparr>m_roomId = R, m_username = Some ''System'',
                     m_content = Some (template u @ '' joined the room''), m_type = ''system'',
                     m_id = messageId (storage s), m_timestamp = clock s\<rparr>"
  obtain s1 out where run: "on_message s c (Parsed (Some ''join_room'') (Some pl)) = (s1, out)"
    by (cases "on_message s c (Parsed (Some ''join_room'') (Some pl))")
  define members where "members = connected_members s1 R"
  have s1: "s1 = s\<lparr>clients := AList.update c \<lparr>c_ws = c, c_roomId = R, c_username = u\<rparr> (clients s),
                   storage := fst (addMessage (fst (addParticipant (storage s) (clock s) R u))
                      (clock s) R (Some ''System'') (Some (template u @ '' joined the room''))
                      ''system'')\<rparr>"
    using run assms
    by (simp add: on_message_def join_room_def getRoom_def R_def u_def split_def Let_def)
  have msgs: "getMessages (storage s1) R = getMessages (storage s) R @ [sys]"
    by (simp add: s1 getMessages_addMessage sys_def)
  have parts: "getParticipants (storage s1) R = getParticipants (storage s) R @
                [\<lparr>p_roomId = R, p_username = u, p_id = participantId (storage s),
                  p_joinedAt = clock s\<rparr>]"
    by (simp add: s1 addMessage_def addParticipant_def getParticipants_def Let_def)
  have cl: "map_of (clients s1) c = Some \<lparr>c_ws = c, c_roomId = R, c_username = u\<rparr>"
    by (simp add: s1 update_conv')
  have out: "out = [(c, Video_state (getPlaybackState (storage s) R))]
                   @ map (\<lambda>r. (r, Chat_message sys)) members
                   @ map (\<lambda>r. (r, New_peer (pl_peerId pl) u)) (filter (\<lambda>r. r \<noteq> c) members)
                   @ [(c, Join_room_success room (getParticipants (storage s1) R)
                            (getMessages (storage s1) R))]"
    using run assms
    by (auto simp add: on_message_def join_room_def getRoom_def addParticipant_def addMessage_def
        getMessages_def getParticipants_def getPlaybackState_def Let_def R_def u_def sys_def
        members_def broadcast_all broadcast_except connected_members_def)
  have mem: "readyState s c = OPEN \<longrightarrow> c \<in> set members"
    unfolding members_def s1 using joiner_is_member[of s c R u] by simp
  have ord: "\<forall>r j. j < length out \<and> out ! j = (r, New_peer (pl_peerId pl) u)
                  \<longrightarrow> (\<exists>i<j. out ! i = (r, Chat_message sys))"
    using second_broadcast_follows_first[OF out] by auto
  show ?thesis
    using out cl msgs parts mem ord
    unfolding Let_def run split_conv R_def[symmetric] u_def[symmetric] sys_def[symmetric]
      members_def[symmetric]
    by blast
qed

theorem join_room_side_effects_in_order_witness:
  "getRoom (storage sample_session) (pl_roomId bob_join) = Some sample_Room
   \<and> readyState sample_session 12 = OPEN
   \<and> map fst (snd (on_message sample_session 12 (Parsed (Some ''join_room'') (Some bob_join))))
       = [12, 11, 12, 11, 12]
   \<and> snd (on_message sample_session 12 (Parsed (Some ''join_room'') (Some bob_join))) ! 3
       = (11, New_peer (Some ''peer-b'') (Some ''bob''))
   \<and> snd (on_message sample_session 12 (Parsed (Some ''join_room'') (Some bob_join))) ! 1
       = (11, Chat_message \<lparr>m_roomId = Some ''abc123'', m_username = Some ''System'',
            m_content = Some ''bob joined the room'', m_type = ''system'', m_id = 3,
            m_timestamp = 5\<rparr>)"
proof -
  have p: "pl_roomId bob_join = Some ''abc123''" "pl_username bob_join = Some ''bob''"
    "pl_peerId bob_join = Some ''peer-b''"
    by (simp_all add: bob_join_def empty_payload_def)
  have h: "getRoom (storage sample_session) (pl_roomId bob_join) = Some sample_Room"
    by (simp add: p sample_getRoom)
  let ?r = "on_message sample_session 12 (Parsed (Some ''join_room'') (Some bob_join))"
  have members: "connected_members (fst ?r) (Some ''abc123'') = [11, 12]"
    using h
    by (simp add: on_message_def join_room_def p split_def Let_def connected_members_def
        sample_clients sample_readyState)
  show ?thesis
    using join_room_side_effects_in_order [OF h, of 12] h sample_readyState(2)
    by (simp add: Let_def split_def p members sample_messageId sample_clock template_def)
qed

section \<open>Membership\<close>

lemma joined_not_left_Nil [simp]: "joined_not_left [] R = {}"
  by (simp add: joined_not_left_def)



text \<open>The handlers change the participants by these two operations only.\<close>

lemma join_room_is_Join:
  "getRoom (storage s) (pl_roomId pl) = Some room \<Longrightarrow>
   getParticipants (storage (fst (join_room s c pl))) R =
     getParticipants
       (apply_member_op (storage s) (Join (clock s) (pl_roomId pl) (pl_username pl))) R"
  by (simp add: join_room_def getRoom_def split_def Let_def addMessage_def getParticipants_def)

lemma on_close_is_Leave:
  "map_of (clients s) c = Some cl \<Longrightarrow>
   getParticipants (storage (fst (on_close s c))) R =
     getParticipants (apply_member_op (storage s) (Leave (c_roomId cl) (c_username cl))) R"
  by (simp add: on_close_def split_def Let_def addMessage_def getParticipants_def)

lemma post_api_rooms_is_Join:
  "u \<noteq> [] \<Longrightarrow> v \<noteq> [] \<Longrightarrow>
   getParticipants (fst (createRoom (storage s) (clock s) new_id v u)) (Some new_id) = []
   \<and> getParticipants (storage (fst (post_api_rooms s new_id (Some u) (Some v)))) R =
       getParticipants
         (apply_member_op (fst (createRoom (storage s) (clock s) new_id v u))
            (Join (clock s) (Some new_id) (Some u))) R"
  by (simp add: post_api_rooms_def createRoom_def split_def Let_def addMessage_def
      getParticipants_def)

lemma chat_and_video_keep_participants:
  "getParticipants (storage (fst (chat_message s c pl))) R = getParticipants (storage s) R"
  "getParticipants (storage (fst (video_state s c pl))) R = getParticipants (storage s) R"
  by (simp_all add: chat_message_def video_state_def split_def Let_def addMessage_def
      updatePlaybackState_def getParticipants_def)











text \<open>
  A run with a \<open>join_room\<close> for a room that does not exist is outside the property above:
  the entry that the failed join leaves in \<open>clients\<close> (see C1) replaces the one of the
  room the connection is in, and the \<open>close\<close> then removes nobody from that room.
\<close>

lemma stale_participant_after_failed_join:
  "usernames
     (storage (run sample_two
        [Ws_message 12 (Parsed (Some ''join_room'') (Some nosuch_join)), Ws_close 12]))
     (Some ''abc123'') = {Some ''alice'', Some ''bob''}"
  by (simp add: usernames_def sample_two_def store_defs handler_defs sample_defs Let_def)

section \<open>The message log\<close>

lemma log_step_refl: "log_step s s"
  by (simp add: log_step_def)

lemma log_step_readyState [simp]: "log_step (s\<lparr>readyState := f\<rparr>) s' = log_step s s'"
  by (simp add: log_step_def)

lemma log_step_on_close: "log_step s (fst (on_close s c))"
  by (cases "map_of (clients s) c")
     (simp_all add: on_close_def log_step_def Let_def split_def getMessages_addMessage)

lemma log_step_join_room: "log_step s (fst (join_room s c pl))"
  by (cases "getRoom (storage s) (pl_roomId pl)")
     (simp_all add: join_room_def log_step_def Let_def split_def getMessages_addMessage)

lemma log_step_chat_message: "log_step s (fst (chat_message s c pl))"
  by (simp add: chat_message_def log_step_def Let_def split_def getMessages_addMessage)

lemma log_step_video_state: "log_step s (fst (video_state s c pl))"
  by (simp add: video_state_def log_step_def Let_def split_def)

lemma log_step_on_message: "log_step s (fst (on_message s c d))"
  by (simp add: on_message_def leave_room_eq_on_close log_step_refl log_step_on_close
      log_step_join_room log_step_chat_message log_step_video_state
      split: data.splits option.splits)

lemma log_step_post:
  "messages (storage s) (Some new_id) = None \<Longrightarrow>
   log_step s (fst (post_api_rooms s new_id username videoUrl))"
proof (cases "\<exists>u v. username = Some u \<and> videoUrl = Some v \<and> u \<noteq> [] \<and> v \<noteq> []")
  case True
  assume fresh: "messages (storage s) (Some new_id) = None"
  from True obtain u v where uv: "username = Some u" "videoUrl = Some v" "u \<noteq> []" "v \<noteq> []"
    by blast
  have "getMessages (fst (createRoom (storage s) (clock s) new_id v u)) r = getMessages (storage s) r"
    for r
    using fresh by (simp add: createRoom_def getMessages_def Let_def)
  then show ?thesis
    using uv
    by (simp add: post_api_rooms_def log_step_def split_def Let_def getMessages_addMessage)
next
  case False
  then have "post_api_rooms s new_id username videoUrl =
               (s, 400, Json_message ''Username and video URL are required'')"
    by (auto simp: post_api_rooms_def split: option.splits)
  then show ?thesis by (simp add: log_step_refl)
qed

lemma log_step_step: "fresh_id s e \<Longrightarrow> log_step s (fst (step s e))"
proof (cases e)
  case (Tick n)
  then show ?thesis by (simp add: step_def log_step_def)
next
  case (Http_post_rooms new_id username videoUrl)
  assume "fresh_id s e"
  with Http_post_rooms show ?thesis
    using log_step_post[of s new_id username videoUrl]
    by (simp add: step_def split_def fresh_id_def Let_def)
next
  case (Http_get_room r)
  then show ?thesis by (simp add: step_def split_def Let_def log_step_refl)
next
  case (Ws_connection c)
  then show ?thesis by (simp add: step_def log_step_def)
next
  case (Ws_message c d)
  then show ?thesis using log_step_on_message[of s c d] by (simp add: step_Ws_message)
next
  case (Ws_closing c)
  then show ?thesis by (simp add: step_def log_step_def)
next
  case (Ws_close c)
  then show ?thesis
    using log_step_on_close[of "s\<lparr>readyState := (readyState s)(c := CLOSED)\<rparr>" c]
    by (simp add: step_Ws_close)
qed

lemma log_sorted_step:
  assumes "log_sorted s" and "log_step s s'"
  shows "log_sorted s'"
proof -
  have le: "clock s \<le> clock s'" using assms(2) by (simp add: log_step_def)
  have "sorted (map m_timestamp (getMessages (storage s') r))
        \<and> (\<forall>m \<in> set (getMessages (storage s') r). m_timestamp m \<le> clock s')" for r
  proof -
    have old: "sorted (map m_timestamp (getMessages (storage s) r))"
      "\<forall>m \<in> set (getMessages (storage s) r). m_timestamp m \<le> clock s"
      using assms(1) by (simp_all add: log_sorted_def)
    from assms(2) have
      "getMessages (storage s') r = getMessages (storage s) r
       \<or> (\<exists>m. getMessages (storage s') r = getMessages (storage s) r @ [m]
             \<and> m_timestamp m = clock s')"
      by (simp add: log_step_def)
    then show ?thesis
    proof
      assume "getMessages (storage s') r = getMessages (storage s) r"
      with old le show ?thesis by fastforce
    next
      assume "\<exists>m. getMessages (storage s') r = getMessages (storage s) r @ [m]
                \<and> m_timestamp m = clock s'"
      then obtain m where m: "getMessages (storage s') r = getMessages (storage s) r @ [m]"
        "m_timestamp m = clock s'" by blast
      have "sorted (map m_timestamp (getMessages (storage s) r @ [m]))"
        using old le m(2) by (fastforce simp: sorted_append)
      moreover have "\<forall>x \<in> set (getMessages (storage s) r @ [m]). m_timestamp x \<le> clock s'"
        using old le m(2) by fastforce
      ultimately show ?thesis using m(1) by simp
    qed
  qed
  then show ?thesis by (simp add: log_sorted_def)
qed

lemma log_sorted_init: "log_sorted init_server"
  by (simp add: log_sorted_def init_server_def new_MemStorage_def getMessages_def)

text \<open>Every state the server reaches from its start, with fresh room ids, has its logs in
  order.\<close>

lemma log_sorted_run: "log_sorted s \<Longrightarrow> fresh_run s es \<Longrightarrow> log_sorted (run s es)"
proof (induction es arbitrary: s)
  case Nil
  then show ?case by simp
next
  case (Cons e es)
  then show ?case
    using log_sorted_step[OF _ log_step_step, of s e] by simp
qed

lemma sample_log_sorted: "log_sorted sample_session"
  unfolding sample_session_def
  by (rule log_sorted_run[OF log_sorted_init])
     (simp add: fresh_id_def store_defs handler_defs sample_defs Let_def)

text \<open>
  C6. The message log of every room is append-only and in ascending order of timestamp.
  From a state whose logs are in order, every event of the server (with \<open>nanoid\<close> giving
  a room id that is not in use) leaves each room's log as it is or appends one message
  at its end, whose timestamp is no earlier than any in the log; the logs are in order
  afterwards, so \<open>getMessages\<close> returns each in ascending order. The server starts with
  its logs in order. \<open>DatabaseStorage.getMessages\<close> returns the rows of a room sorted by
  timestamp.
\<close>

theorem message_log_append_only:
  assumes "log_sorted s" and "fresh_id s e"
  shows "(let s' = fst (step s e)
          in log_sorted s'
           \<and> (\<forall>r. (getMessages (storage s') r = getMessages (storage s) r
                  \<or> (\<exists>m. getMessages (storage s') r = getMessages (storage s) r @ [m]
                         \<and> (\<forall>m' \<in> set (getMessages (storage s) r).
                               m_timestamp m' \<le> m_timestamp m)))
                 \<and> sorted (map m_timestamp (getMessages (storage s') r))))
         \<and> log_sorted init_server
         \<and> sorted (map m_timestamp (db_getMessages db dbR))
         \<and> mset (db_getMessages db dbR) =
             mset (filter (\<lambda>m. m_roomId m = Some dbR) (db_messages db))
         \<and> (sorted (map m_timestamp (db_messages db)) \<longrightarrow>
              db_getMessages db dbR = filter (\<lambda>m. m_roomId m = Some dbR) (db_messages db))"
proof -
  let ?s' = "fst (step s e)"
  have st: "log_step s ?s'" using assms(2) by (rule log_step_step)
  then have inv: "log_sorted ?s'" using assms(1) by (rule log_sorted_step[rotated])
  have "getMessages (storage ?s') r = getMessages (storage s) r
        \<or> (\<exists>m. getMessages (storage ?s') r = getMessages (storage s) r @ [m]
              \<and> (\<forall>m' \<in> set (getMessages (storage s) r). m_timestamp m' \<le> m_timestamp m))" for r
  proof -
    from st have
      "getMessages (storage ?s') r = getMessages (storage s) r
       \<or> (\<exists>m. getMessages (storage ?s') r = getMessages (storage s) r @ [m]
             \<and> m_timestamp m = clock ?s')"
      by (simp add: log_step_def)
    then show ?thesis
    proof
      assume "getMessages (storage ?s') r = getMessages (storage s) r"
      then show ?thesis by simp
    next
      assume "\<exists>m. getMessages (storage ?s') r = getMessages (storage s) r @ [m]
                \<and> m_timestamp m = clock ?s'"
      then obtain m where m: "getMessages (storage ?s') r = getMessages (storage s) r @ [m]"
        "m_timestamp m = clock ?s'" by blast
      have "\<forall>m' \<in> set (getMessages (storage s) r). m_timestamp m' \<le> clock s"
        using assms(1) by (simp add: log_sorted_def)
      moreover have "clock s \<le> clock ?s'" using st by (simp add: log_step_def)
      ultimately have "\<forall>m' \<in> set (getMessages (storage s) r). m_timestamp m' \<le> m_timestamp m"
        using m(2) by fastforce
      with m(1) show ?thesis by blast
    qed
  qed
  moreover have "sorted (map m_timestamp (getMessages (storage ?s') r))" for r
    using inv by (simp add: log_sorted_def)
  moreover have "sorted (map m_timestamp (db_getMessages db dbR))"
    by (simp add: db_getMessages_def)
  moreover have "mset (db_getMessages db dbR) =
                   mset (filter (\<lambda>m. m_roomId m = Some dbR) (db_messages db))"
    by (simp add: db_getMessages_def)
  moreover have "db_getMessages db dbR = filter (\<lambda>m. m_roomId m = Some dbR) (db_messages db)"
    if "sorted (map m_timestamp (db_messages db))"
    unfolding db_getMessages_def
    by (rule sort_key_id_if_sorted) (use that in \<open>simp add: sorted_filter\<close>)
  ultimately show ?thesis
    using inv log_sorted_init by (simp add: Let_def)
qed

theorem message_log_append_only_witness:
  "log_sorted sample_session
   \<and> fresh_id sample_session (Ws_message 11 (Parsed (Some ''chat_message'') (Some hello_chat)))
   \<and> log_sorted
       (fst (step sample_session
               (Ws_message 11 (Parsed (Some ''chat_message'') (Some hello_chat)))))
   \<and> map m_timestamp
       (getMessages
          (storage (fst (step sample_session
                           (Ws_message 11 (Parsed (Some ''chat_message'') (Some hello_chat))))))
          (Some ''abc123'')) = [0, 5, 5]
   \<and> sorted (map m_timestamp (db_messages sample_db))
   \<and> map m_id (db_getMessages sample_db ''abc123'') = [1, 3]"
proof -
  have d: "sorted (map m_timestamp (db_messages sample_db))"
    by (simp add: sample_db_def)
  have f: "fresh_id sample_session
             (Ws_message 11 (Parsed (Some ''chat_message'') (Some hello_chat)))"
    by (simp add: fresh_id_def)
  have m: "map m_timestamp
       (getMessages
          (storage (fst (step sample_session
                           (Ws_message 11 (Parsed (Some ''chat_message'') (Some hello_chat))))))
          (Some ''abc123'')) = [0, 5, 5]"
    by (simp add: step_Ws_message on_message_def chat_message_def split_def Let_def
        getMessages_addMessage hello_chat_def empty_payload_def sample_getMessages sample_clock)
  from message_log_append_only [OF sample_log_sorted f, of sample_db "''abc123''"] d
  have "db_getMessages sample_db ''abc123'' =
          filter (\<lambda>m. m_roomId m = Some ''abc123'') (db_messages sample_db)"
    by (simp add: Let_def)
  then have g: "map m_id (db_getMessages sample_db ''abc123'') = [1, 3]"
    by (simp add: sample_db_def)
  show ?thesis
    using message_log_append_only [OF sample_log_sorted f] sample_log_sorted f m d g
    by (simp add: Let_def)
qed

section \<open>Frames that are dropped\<close>

text \<open>
  C8, as the code has it. A frame that does not parse, a frame without a payload (unless
  it is a \<open>leave_room\<close>, which reads none) and a frame whose type is not one of the four
  handled types are dropped: the state is as before and nothing is sent. A frame of a
  handled type whose payload lacks fields is not among them: it goes to its handler with
  the missing fields undefined.
\<close>

theorem unparsed_and_unknown_frames_dropped:
  assumes "d = Malformed
           \<or> (\<exists>t p. d = Parsed t p \<and> t \<noteq> Some ''join_room'' \<and> t \<noteq> Some ''leave_room''
                    \<and> t \<noteq> Some ''chat_message'' \<and> t \<noteq> Some ''video_state'')
           \<or> (\<exists>t. d = Parsed t None \<and> t \<noteq> Some ''leave_room'')"
  shows "on_message s ws d = (s, []) \<and> step s (Ws_message ws d) = (s, [])
       \<and> on_message s ws (Parsed (Some ''join_room'') (Some pl)) = join_room s ws pl
       \<and> on_message s ws (Parsed (Some ''leave_room'') p') = leave_room s ws
       \<and> on_message s ws (Parsed (Some ''chat_message'') (Some pl)) = chat_message s ws pl
       \<and> on_message s ws (Parsed (Some ''video_state'') (Some pl)) = video_state s ws pl"
  using assms by (auto simp: on_message_def step_def)

theorem unparsed_and_unknown_frames_dropped_witness:
  "Some ''ping'' \<noteq> Some ''join_room'' \<and> Some ''ping'' \<noteq> Some ''leave_room''
   \<and> Some ''ping'' \<noteq> Some ''chat_message'' \<and> Some ''ping'' \<noteq> Some ''video_state''
   \<and> step sample_session (Ws_message 11 (Parsed (Some ''ping'') (Some hello_chat)))
       = (sample_session, [])
   \<and> step sample_session (Ws_message 11 Malformed) = (sample_session, [])
   \<and> step sample_session (Ws_message 11 (Parsed (Some ''chat_message'') None))
       = (sample_session, [])"
  using unparsed_and_unknown_frames_dropped
          [of "Parsed (Some ''ping'') (Some hello_chat)" sample_session 11]
        unparsed_and_unknown_frames_dropped [of Malformed sample_session 11]
        unparsed_and_unknown_frames_dropped
          [of "Parsed (Some ''chat_message'') None" sample_session 11]
  by simp

text \<open>
  C8 as the specification states it fails for a frame with missing fields: on a fresh
  server, the frame \<open>{"type": "chat_message", "payload": {}}\<close> is not dropped. It appends
  a message without room, user and content to the log kept under the key \<open>undefined\<close>.
\<close>

theorem frame_without_fields_not_dropped:
  "getMessages (storage init_server) None = []
   \<and> getMessages
        (storage (fst (step init_server
           (Ws_message 7 (Parsed (Some ''chat_message'') (Some empty_payload))))))
        None
       = [\<lparr>m_roomId = None, m_username = None, m_content = None, m_type = ''user'', m_id = 1,
           m_timestamp = 0\<rparr>]"
  by (simp add: store_defs handler_defs empty_payload_def Let_def)

end
